theory Spec2Isabelle
  imports Complex_Main
begin

section \<open>Message factories of the websocket client (v2/websocket/factories.go)\<close>

text \<open>
  The file declares the interface \<open>messageFactory\<close> (\<open>Build\<close>, \<open>BuildSnapshot\<close>) and its five
  implementations: \<open>TickerFactory\<close>, \<open>TradeFactory\<close>, \<open>BookFactory\<close>, \<open>CandlesFactory\<close> and
  \<open>StatsFactory\<close>. A Go function returning \<open>(value, error)\<close> is a pair of options here
  (\<open>None\<close> is \<open>nil\<close>); a call that panics instead of returning is the outcome \<open>Panicked\<close>.
  The mutex of \<open>BookFactory\<close> has no counterpart: one call runs at a time in this model.
\<close>

subsection \<open>Values, errors, outcomes\<close>

text \<open>An \<open>error\<close> value: a failure of the JSON decoder, or the message of \<open>fmt.Errorf\<close>.\<close>

datatype error = DecodeError | Errorf string

datatype panic = IndexOutOfRange | NilDereference

datatype 'a outcome = Returned 'a | Panicked panic

text \<open>
  \<open>raw []interface{}\<close>: the fields of a message as the fast path decoded them (every number a
  \<open>float64\<close>, read here as the real number it denotes). The factories only hand them on.
\<close>

datatype iface = INil | IBool bool | IFloat real | IString string | IArray "iface list"

text \<open>
  What \<open>json.Decoder\<close> with \<open>UseNumber\<close> stores in an \<open>interface{}\<close>: a number is a
  \<open>json.Number\<close>, the text of the literal. A string token holds the body of the literal as
  written between its quotes; the factories never read one.
\<close>

datatype jtoken =
    JNull
  | JBool bool
  | JNumber string
  | JString string
  | JArray "jtoken list"
  | JObject "(string \<times> jtoken) list"

text \<open>
  The subscription (its type is declared in another file of the package): the factories read
  \<open>sub.Request.Symbol\<close>, \<open>sub.Request.Precision\<close> and \<open>sub.Request.Key\<close>.
\<close>

record SubscriptionRequest =
  Channel :: string
  Symbol :: string
  Precision :: string
  Key :: string

record subscription =
  Request :: SubscriptionRequest

subsection \<open>Order books\<close>

text \<open>
  Modelled from the spec: the type \<open>bitfinex.BookUpdate\<close> is declared outside this file. A price
  level carries its price, the exact integer count of contributing orders, a signed amount and
  its side.
\<close>

datatype OrderSide = Bid | Ask

record BookUpdate =
  Price :: real
  Count :: int
  Amount :: real
  Side :: OrderSide

text \<open>
  Modelled from the spec: \<open>bitfinex.BookUpdateSnapshot\<close> is the ordered sequence of the levels
  of a snapshot.
\<close>

type_synonym BookUpdateSnapshot = "BookUpdate list"

text \<open>
  \<open>Orderbook\<close>: the struct literal in \<open>BuildSnapshot\<close> names its fields \<open>symbol\<close>, \<open>bids\<close> and
  \<open>asks\<close>.
\<close>

record Orderbook =
  symbol :: string
  bids :: "BookUpdate list"
  asks :: "BookUpdate list"

subsection \<open>The packages the factories call\<close>

text \<open>
  The constructors of the typed objects live in other packages of the repository
  (\<open>ticker\<close>, \<open>candle\<close>, \<open>derivatives\<close>, \<open>convert\<close>, \<open>bitfinex\<close>) and
  \<open>extractSymbolResolutionFromKey\<close> in another file of this package. They are parameters of
  the model: every theorem holds for whatever these functions compute. \<open>'o\<close> is the type of
  the objects the stateless factories return as \<open>interface{}\<close>.
\<close>

record 'o packages =
  ticker_FromRaw :: "string \<Rightarrow> iface list \<Rightarrow> 'o option \<times> error option"
  ticker_SnapshotFromRaw :: "string \<Rightarrow> iface list list \<Rightarrow> 'o option \<times> error option"
  NewTradeFromRaw :: "string \<Rightarrow> iface list \<Rightarrow> 'o option \<times> error option"
  NewTradeSnapshotFromRaw :: "string \<Rightarrow> real list list \<Rightarrow> 'o option \<times> error option"
  ToFloat64Array :: "iface list list \<Rightarrow> real list list \<times> error option"
  NewBookUpdateFromRaw ::
    "string \<Rightarrow> string \<Rightarrow> iface list \<Rightarrow> jtoken \<Rightarrow> BookUpdate option \<times> error option"
  NewBookUpdateSnapshotFromRaw ::
    "string \<Rightarrow> string \<Rightarrow> real list list \<Rightarrow> jtoken \<Rightarrow> BookUpdateSnapshot option \<times> error option"
  extractSymbolResolutionFromKey :: "string \<Rightarrow> string \<times> string \<times> error option"
  candle_FromRaw :: "string \<Rightarrow> string \<Rightarrow> iface list \<Rightarrow> 'o option \<times> error option"
  candle_SnapshotFromRaw :: "string \<Rightarrow> string \<Rightarrow> iface list list \<Rightarrow> 'o option \<times> error option"
  derivatives_FromWsRaw :: "string \<Rightarrow> iface list \<Rightarrow> 'o option \<times> error option"

subsection \<open>Ticker, trade, candle and stats factories\<close>

definition TickerFactory_Build ::
  "'o packages \<Rightarrow> subscription \<Rightarrow> string \<Rightarrow> iface list \<Rightarrow> string \<Rightarrow> 'o option \<times> error option"
where
  "TickerFactory_Build pk sub objType raw raw_bytes = ticker_FromRaw pk (Symbol (Request sub)) raw"

definition TickerFactory_BuildSnapshot ::
  "'o packages \<Rightarrow> subscription \<Rightarrow> iface list list \<Rightarrow> string \<Rightarrow> 'o option \<times> error option"
where
  "TickerFactory_BuildSnapshot pk sub raw raw_bytes =
     ticker_SnapshotFromRaw pk (Symbol (Request sub)) raw"

definition TradeFactory_Build ::
  "'o packages \<Rightarrow> subscription \<Rightarrow> string \<Rightarrow> iface list \<Rightarrow> string \<Rightarrow> 'o option \<times> error option"
where
  "TradeFactory_Build pk sub objType raw raw_bytes =
     (if ''tu'' = objType then (None, None)
      else NewTradeFromRaw pk (Symbol (Request sub)) raw)"

definition TradeFactory_BuildSnapshot ::
  "'o packages \<Rightarrow> subscription \<Rightarrow> iface list list \<Rightarrow> string \<Rightarrow> 'o option \<times> error option"
where
  "TradeFactory_BuildSnapshot pk sub raw raw_bytes =
     (case ToFloat64Array pk raw of
        (converted, Some err) \<Rightarrow> (None, Some err)
      | (converted, None) \<Rightarrow> NewTradeSnapshotFromRaw pk (Symbol (Request sub)) converted)"

definition CandlesFactory_Build ::
  "'o packages \<Rightarrow> subscription \<Rightarrow> string \<Rightarrow> iface list \<Rightarrow> string \<Rightarrow> 'o option \<times> error option"
where
  "CandlesFactory_Build pk sub objType raw raw_bytes =
     (case extractSymbolResolutionFromKey pk (Key (Request sub)) of
        (symb, res, Some err) \<Rightarrow> (None, Some err)
      | (symb, res, None) \<Rightarrow> candle_FromRaw pk symb res raw)"

definition CandlesFactory_BuildSnapshot ::
  "'o packages \<Rightarrow> subscription \<Rightarrow> iface list list \<Rightarrow> string \<Rightarrow> 'o option \<times> error option"
where
  "CandlesFactory_BuildSnapshot pk sub raw raw_bytes =
     (case extractSymbolResolutionFromKey pk (Key (Request sub)) of
        (symb, res, Some err) \<Rightarrow> (None, Some err)
      | (symb, res, None) \<Rightarrow> candle_SnapshotFromRaw pk symb res raw)"

text \<open>
  \<open>strings.Split(s, sep)\<close> for a separator of one byte: the substrings between the
  separators, so one more than there are separators (\<open>[""]\<close> for the empty string).
\<close>

fun Split :: "string \<Rightarrow> char \<Rightarrow> string list" where
  "Split [] sep = [[]]"
| "Split (c # cs) sep =
     (if c = sep then [] # Split cs sep
      else (case Split cs sep of
              [] \<Rightarrow> [[c]]
            | seg # segs \<Rightarrow> (c # seg) # segs))"

definition StatsFactory_Build ::
  "'o packages \<Rightarrow> subscription \<Rightarrow> string \<Rightarrow> iface list \<Rightarrow> string \<Rightarrow> 'o option \<times> error option"
where
  "StatsFactory_Build pk sub objType raw raw_bytes =
     (let splits = Split (Key (Request sub)) (CHR '':'')
      in if length splits \<noteq> 3
         then (None, Some (Errorf (''unable to parse key to symbol '' @ Key (Request sub))))
         else derivatives_FromWsRaw pk (splits ! 1 @ '':'' @ splits ! 2) raw)"

definition StatsFactory_BuildSnapshot ::
  "'o packages \<Rightarrow> subscription \<Rightarrow> iface list list \<Rightarrow> string \<Rightarrow> 'o option \<times> error option"
where
  "StatsFactory_BuildSnapshot pk sub raw raw_bytes = (None, None)"

subsection \<open>Decoding with exact numbers\<close>

text \<open>
  \<open>ConvertBytesToJsonNumberArray\<close> runs \<open>json.NewDecoder\<close> with \<open>UseNumber\<close> on the bytes and
  decodes one value into a \<open>[]interface{}\<close>. The decoder belongs to Go's standard library;
  the functions below follow its grammar: white space is space, tab, carriage return and line
  feed; a number is \<open>-?(0|[1-9][0-9]*)(.[0-9]+)?([eE][+-]?[0-9]+)?\<close>; a string runs to the
  closing quote, with the escapes \<open>\" \\ \/ \b \f \n \r \t \uXXXX\<close> and no byte below 0x20;
  the literals are \<open>true\<close>, \<open>false\<close> and \<open>null\<close>. The limit on the nesting depth that recent
  releases of the library have is left out.
\<close>

definition isSpace :: "char \<Rightarrow> bool" where
  "isSpace c = (c = CHR '' '' \<or> c = CHR 0x09 \<or> c = CHR 0x0D \<or> c = CHR 0x0A)"

definition isDigit :: "char \<Rightarrow> bool" where
  "isDigit c = (c \<in> set ''0123456789'')"

definition isHex :: "char \<Rightarrow> bool" where
  "isHex c = (c \<in> set ''0123456789abcdefABCDEF'')"

datatype token =
  TLBrack | TRBrack | TLBrace | TRBrace | TComma | TColon
  | TNum string | TStr string | TTrue | TFalse | TNull | TBad

text \<open>The longest run of digits at the front, and what follows it.\<close>

fun digits :: "string \<Rightarrow> string \<times> string" where
  "digits [] = ([], [])"
| "digits (c # cs) =
     (if isDigit c then (case digits cs of (ds, rest) \<Rightarrow> (c # ds, rest)) else ([], c # cs))"

text \<open>
  The parts of a number, each given the text read so far: the exponent, the fraction, the
  integer part. \<open>None\<close> is a malformed number (\<open>1.\<close>, \<open>2e\<close>, \<open>-\<close>).
\<close>

definition scan_exp :: "string \<Rightarrow> string \<Rightarrow> (string \<times> string) option" where
  "scan_exp acc s =
     (case s of
        [] \<Rightarrow> Some (acc, s)
      | e # r \<Rightarrow>
          if e = CHR ''e'' \<or> e = CHR ''E'' then
            (case (case r of
                     [] \<Rightarrow> ([], r)
                   | g # r' \<Rightarrow> if g = CHR ''+'' \<or> g = CHR ''-'' then ([g], r') else ([], r)) of
               (sg, r1) \<Rightarrow>
                 (case digits r1 of
                    (ds, r2) \<Rightarrow> if ds = [] then None else Some (acc @ e # sg @ ds, r2)))
          else Some (acc, s))"

definition scan_frac :: "string \<Rightarrow> string \<Rightarrow> (string \<times> string) option" where
  "scan_frac acc s =
     (case s of
        [] \<Rightarrow> scan_exp acc s
      | d # r \<Rightarrow>
          if d = CHR ''.'' then
            (case digits r of
               (ds, r') \<Rightarrow> if ds = [] then None else scan_exp (acc @ d # ds) r')
          else scan_exp acc s)"

definition scan_int :: "string \<Rightarrow> string \<Rightarrow> (string \<times> string) option" where
  "scan_int acc s =
     (case s of
        [] \<Rightarrow> None
      | c # r \<Rightarrow>
          if c = CHR ''0'' then scan_frac (acc @ [c]) r
          else if isDigit c then (case digits r of (ds, r') \<Rightarrow> scan_frac (acc @ c # ds) r')
          else None)"

definition scan_number :: "string \<Rightarrow> (string \<times> string) option" where
  "scan_number s =
     (case s of
        [] \<Rightarrow> None
      | c # r \<Rightarrow> if c = CHR ''-'' then scan_int [c] r else scan_int [] s)"

text \<open>
  A string literal after its opening quote: the body as written, and what follows the closing
  quote (\<open>CHR 0x22\<close>; \<open>CHR 0x5C\<close> is the backslash).
\<close>

datatype smode = Plain | Escaped | Hex nat

fun scan_string :: "smode \<Rightarrow> string \<Rightarrow> string \<Rightarrow> (string \<times> string) option" where
  "scan_string m acc [] = None"
| "scan_string Plain acc (c # cs) =
     (if c = CHR 0x22 then Some (acc, cs)
      else if c = CHR 0x5C then scan_string Escaped (acc @ [c]) cs
      else if of_char c < (32 :: nat) then None
      else scan_string Plain (acc @ [c]) cs)"
| "scan_string Escaped acc (c # cs) =
     (if c \<in> set [CHR 0x22, CHR 0x5C, CHR ''/'', CHR ''b'', CHR ''f'', CHR ''n'', CHR ''r'', CHR ''t'']
      then scan_string Plain (acc @ [c]) cs
      else if c = CHR ''u'' then scan_string (Hex 4) (acc @ [c]) cs
      else None)"
| "scan_string (Hex n) acc (c # cs) =
     (if isHex c then scan_string (if n \<le> 1 then Plain else Hex (n - 1)) (acc @ [c]) cs
      else None)"

text \<open>\<open>literal w s\<close>: what follows \<open>w\<close> when \<open>s\<close> begins with it.\<close>

definition literal :: "string \<Rightarrow> string \<Rightarrow> string option" where
  "literal w s = (if take (length w) s = w then Some (drop (length w) s) else None)"

text \<open>The token that begins with the byte \<open>c\<close>, and the bytes after the token.\<close>

definition token_at :: "char \<Rightarrow> string \<Rightarrow> token \<times> string" where
  "token_at c cs =
     (if c = CHR ''['' then (TLBrack, cs)
      else if c = CHR '']'' then (TRBrack, cs)
      else if c = CHR ''{'' then (TLBrace, cs)
      else if c = CHR ''}'' then (TRBrace, cs)
      else if c = CHR '','' then (TComma, cs)
      else if c = CHR '':'' then (TColon, cs)
      else if c = CHR 0x22 then
        (case scan_string Plain [] cs of
           None \<Rightarrow> (TBad, [])
         | Some (body, rest) \<Rightarrow> (TStr body, rest))
      else if c = CHR ''-'' \<or> isDigit c then
        (case scan_number (c # cs) of
           None \<Rightarrow> (TBad, [])
         | Some (text, rest) \<Rightarrow> (TNum text, rest))
      else if c = CHR ''t'' then
        (case literal ''rue'' cs of None \<Rightarrow> (TBad, []) | Some rest \<Rightarrow> (TTrue, rest))
      else if c = CHR ''f'' then
        (case literal ''alse'' cs of None \<Rightarrow> (TBad, []) | Some rest \<Rightarrow> (TFalse, rest))
      else if c = CHR ''n'' then
        (case literal ''ull'' cs of None \<Rightarrow> (TBad, []) | Some rest \<Rightarrow> (TNull, rest))
      else (TBad, []))"

definition next_token :: "string \<Rightarrow> (token \<times> string) option" where
  "next_token s =
     (case dropWhile isSpace s of
        [] \<Rightarrow> None
      | c # cs \<Rightarrow> Some (token_at c cs))"

lemma digits_length: "digits s = (ds, r) \<Longrightarrow> length r \<le> length s"
  by (induction s arbitrary: ds r) (auto split: if_splits prod.splits)

lemma scan_exp_length: "scan_exp acc s = Some (t, r) \<Longrightarrow> length r \<le> length s"
  by (auto simp: scan_exp_def split: list.splits if_splits prod.splits dest!: digits_length)

lemma scan_frac_length: "scan_frac acc s = Some (t, r) \<Longrightarrow> length r \<le> length s"
  by (auto simp: scan_frac_def split: list.splits if_splits prod.splits
      dest!: digits_length scan_exp_length)

lemma scan_int_length: "scan_int acc s = Some (t, r) \<Longrightarrow> length r < length s"
  by (auto simp: scan_int_def split: list.splits if_splits prod.splits
      dest!: digits_length scan_frac_length)

lemma scan_number_length: "scan_number s = Some (t, r) \<Longrightarrow> length r < length s"
  by (auto simp: scan_number_def split: list.splits if_splits dest!: scan_int_length)

lemma scan_string_length: "scan_string m acc s = Some (t, r) \<Longrightarrow> length r < length s"
  by (induction m acc s rule: scan_string.induct) (auto split: if_splits)

lemma literal_length: "literal w s = Some r \<Longrightarrow> length r \<le> length s"
  by (auto simp: literal_def split: if_splits)

lemma token_at_length: "length (snd (token_at c cs)) \<le> length cs"
proof -
  have a: "length (snd (case scan_string Plain [] cs of
           None \<Rightarrow> (TBad, [])
         | Some (body, rest) \<Rightarrow> (TStr body, rest))) \<le> length cs"
    by (auto split: option.split dest!: scan_string_length)
  have b: "length (snd (case scan_number (c # cs) of
           None \<Rightarrow> (TBad, [])
         | Some (text, rest) \<Rightarrow> (TNum text, rest))) \<le> length cs"
    by (auto split: option.split dest!: scan_number_length)
  have c: "length (snd (case literal w cs of None \<Rightarrow> (TBad, []) | Some rest \<Rightarrow> (t, rest))) \<le> length cs"
    for w t
    by (auto split: option.split dest!: literal_length)
  show ?thesis
    unfolding token_at_def using a b c by simp
qed

lemma next_token_length: "next_token s = Some (t, r) \<Longrightarrow> length r < length s"
proof -
  assume a: "next_token s = Some (t, r)"
  have le: "length (dropWhile isSpace s) \<le> length s"
    by (rule length_dropWhile_le)
  from a obtain c cs where d: "dropWhile isSpace s = c # cs" and r: "r = snd (token_at c cs)"
    by (auto simp: next_token_def split: list.splits)
  from r have "length r \<le> length cs"
    by (simp add: token_at_length)
  with le d show ?thesis by simp
qed

text \<open>
  The tokens of the input, up to its end or its first malformed token (\<open>TBad\<close>, after which
  nothing is read).
\<close>

function lex :: "string \<Rightarrow> token list" where
  "lex s = (case next_token s of None \<Rightarrow> [] | Some (t, rest) \<Rightarrow> t # lex rest)"
  by pat_completeness auto
termination
  by (relation "measure length") (auto dest: next_token_length)

declare lex.simps [simp del]

text \<open>
  The decoder keeps a stack of the containers that are open; the top frame says what may come
  next: after \<open>[\<close> a value or \<open>]\<close>, after a comma a value, after an element a comma or \<open>]\<close>, and
  the same for the members of an object.
\<close>

datatype frame =
    ArrOpen
  | ArrComma "jtoken list"
  | ArrElem "jtoken list"
  | ObjOpen
  | ObjComma "(string \<times> jtoken) list"
  | ObjKey "(string \<times> jtoken) list" string
  | ObjColon "(string \<times> jtoken) list" string
  | ObjMem "(string \<times> jtoken) list"

datatype progress = Done jtoken | More "frame list" | Fail

text \<open>A complete value goes into the container on top of the stack, or ends the decoding.\<close>

fun reduce :: "jtoken \<Rightarrow> frame list \<Rightarrow> progress" where
  "reduce v [] = Done v"
| "reduce v (ArrOpen # st) = More (ArrElem [v] # st)"
| "reduce v (ArrComma acc # st) = More (ArrElem (acc @ [v]) # st)"
| "reduce v (ObjColon ms k # st) = More (ObjMem (ms @ [(k, v)]) # st)"
| "reduce v (f # st) = Fail"

fun begin_value :: "token \<Rightarrow> frame list \<Rightarrow> progress" where
  "begin_value TLBrack st = More (ArrOpen # st)"
| "begin_value TLBrace st = More (ObjOpen # st)"
| "begin_value (TNum text) st = reduce (JNumber text) st"
| "begin_value (TStr body) st = reduce (JString body) st"
| "begin_value TTrue st = reduce (JBool True) st"
| "begin_value TFalse st = reduce (JBool False) st"
| "begin_value TNull st = reduce JNull st"
| "begin_value t st = Fail"

fun step :: "token \<Rightarrow> frame list \<Rightarrow> progress" where
  "step t [] = begin_value t []"
| "step t (ArrOpen # st) =
     (if t = TRBrack then reduce (JArray []) st else begin_value t (ArrOpen # st))"
| "step t (ArrComma acc # st) = begin_value t (ArrComma acc # st)"
| "step t (ArrElem acc # st) =
     (if t = TComma then More (ArrComma acc # st)
      else if t = TRBrack then reduce (JArray acc) st
      else Fail)"
| "step t (ObjOpen # st) =
     (case t of
        TStr k \<Rightarrow> More (ObjKey [] k # st)
      | TRBrace \<Rightarrow> reduce (JObject []) st
      | _ \<Rightarrow> Fail)"
| "step t (ObjComma ms # st) = (case t of TStr k \<Rightarrow> More (ObjKey ms k # st) | _ \<Rightarrow> Fail)"
| "step t (ObjKey ms k # st) = (if t = TColon then More (ObjColon ms k # st) else Fail)"
| "step t (ObjColon ms k # st) = begin_value t (ObjColon ms k # st)"
| "step t (ObjMem ms # st) =
     (if t = TComma then More (ObjComma ms # st)
      else if t = TRBrace then reduce (JObject ms) st
      else Fail)"

text \<open>
  \<open>run\<close> stops at the token that completes the first value and returns the value with the
  tokens it has not looked at. Input that ends before the value does is an error.
\<close>

fun run :: "frame list \<Rightarrow> token list \<Rightarrow> (jtoken \<times> token list) option" where
  "run st [] = None"
| "run st (t # ts) =
     (case step t st of
        Fail \<Rightarrow> None
      | Done v \<Rightarrow> Some (v, ts)
      | More st' \<Rightarrow> run st' ts)"

text \<open>
  \<open>d.Decode(&raw_json_number)\<close> with \<open>raw_json_number\<close> a nil \<open>[]interface{}\<close>: an array gives
  its elements, and the bytes after its closing bracket are not read; the value \<open>null\<close>, ended by white space or by the end of the input, leaves the
  slice nil and is no error; any other first value, or none, is an error (of syntax, of type or
  an end of input: \<open>DecodeError\<close> stands for all of them).
\<close>

definition Decode :: "string \<Rightarrow> error + jtoken list" where
  "Decode bs =
     (case dropWhile isSpace bs of
        [] \<Rightarrow> Inl DecodeError
      | c # cs \<Rightarrow>
          if c = CHR ''['' then
            (case run [] (lex (c # cs)) of
               Some (JArray elems, unread) \<Rightarrow> Inr elems
             | _ \<Rightarrow> Inl DecodeError)
          else if c = CHR ''n'' then
            (case literal ''ull'' cs of
               None \<Rightarrow> Inl DecodeError
             | Some rest \<Rightarrow>
                 (case rest of
                    [] \<Rightarrow> Inr []
                  | d # ds \<Rightarrow> if isSpace d then Inr [] else Inl DecodeError))
          else Inl DecodeError)"

definition ConvertBytesToJsonNumberArray :: "string \<Rightarrow> jtoken list \<times> error option" where
  "ConvertBytesToJsonNumberArray raw_bytes =
     (case Decode raw_bytes of
        Inl str_conv_err \<Rightarrow> ([], Some str_conv_err)
      | Inr raw_json_number \<Rightarrow> (raw_json_number, None))"

subsection \<open>Tokens as text\<close>









text \<open>
  The number texts inside a token, and \<open>occurs_in num bs\<close>: the text \<open>num\<close> stands somewhere
  in the bytes \<open>bs\<close>, byte for byte.
\<close>

primrec number_texts :: "jtoken \<Rightarrow> string list" where
  "number_texts JNull = []"
| "number_texts (JBool b) = []"
| "number_texts (JNumber num) = [num]"
| "number_texts (JString body) = []"
| "number_texts (JArray vs) = concat (map number_texts vs)"
| "number_texts (JObject ms) = concat (map snd (map (map_prod id number_texts) ms))"


subsection \<open>The book factory\<close>

text \<open>
  Modelled from the spec: the upsert and the removal of a level, which \<open>Orderbook.UpdateWith\<close>
  (defined in another file of the package) performs on one side of a book. A count greater
  than zero upserts the level, replacing any level at that price and keeping the side sorted
  (\<open>before\<close> is \<open>>\<close> for bids, by descending price, and \<open><\<close> for asks, by ascending price); a
  count of zero removes the level if present and does nothing if absent. The spec gives no
  action for a negative count: the side stays as it is.
\<close>

fun insert_level :: "(real \<Rightarrow> real \<Rightarrow> bool) \<Rightarrow> BookUpdate \<Rightarrow> BookUpdate list \<Rightarrow> BookUpdate list" where
  "insert_level before u [] = [u]"
| "insert_level before u (l # ls) =
     (if before (Price u) (Price l) then u # l # ls else l # insert_level before u ls)"

definition remove_level :: "real \<Rightarrow> BookUpdate list \<Rightarrow> BookUpdate list" where
  "remove_level p ls = filter (\<lambda>l. Price l \<noteq> p) ls"

definition apply_level ::
  "(real \<Rightarrow> real \<Rightarrow> bool) \<Rightarrow> BookUpdate \<Rightarrow> BookUpdate list \<Rightarrow> BookUpdate list" where
  "apply_level before u ls =
     (if Count u > 0 then insert_level before u (remove_level (Price u) ls)
      else if Count u = 0 then remove_level (Price u) ls
      else ls)"

text \<open>
  Modelled from the spec: \<open>Orderbook.UpdateWith\<close>, which is not in this file, applies the
  update to the side it belongs to. The update arrives as a pointer, and reading the count of a
  nil update is a nil dereference.
\<close>

definition updated_book :: "BookUpdate \<Rightarrow> Orderbook \<Rightarrow> Orderbook" where
  "updated_book u ob =
     (if Side u = Bid then ob\<lparr>bids := apply_level (>) u (bids ob)\<rparr>
      else ob\<lparr>asks := apply_level (<) u (asks ob)\<rparr>)"

definition UpdateWith :: "Orderbook \<Rightarrow> BookUpdate option \<Rightarrow> Orderbook outcome" where
  "UpdateWith ob bu =
     (case bu of
        None \<Rightarrow> Panicked NilDereference
      | Some u \<Rightarrow> Returned (updated_book u ob))"

text \<open>
  The levels of one side of a book, and the invariant of the spec on a book: each side is
  sorted by price, strictly, so that no price occurs twice on a side.
\<close>

definition side_levels :: "OrderSide \<Rightarrow> Orderbook \<Rightarrow> BookUpdate list" where
  "side_levels sd ob = (if sd = Bid then bids ob else asks ob)"

definition book_sorted :: "Orderbook \<Rightarrow> bool" where
  "book_sorted ob \<longleftrightarrow>
     sorted_wrt (\<lambda>a b. Price a > Price b) (bids ob)
     \<and> sorted_wrt (\<lambda>a b. Price a < Price b) (asks ob)"

text \<open>
  Modelled from the spec: \<open>Orderbook.SetWithSnapshot\<close> is defined in another file of the
  package. The book is populated wholesale from the snapshot: its bids are the bid levels of
  the snapshot and its asks the other levels, in the order of the snapshot. Reading a nil
  snapshot is a nil dereference.
\<close>

definition SetWithSnapshot :: "Orderbook \<Rightarrow> BookUpdateSnapshot option \<Rightarrow> Orderbook outcome" where
  "SetWithSnapshot ob bs =
     (case bs of
        None \<Rightarrow> Panicked NilDereference
      | Some snapshot \<Rightarrow>
          Returned (ob\<lparr>bids := filter (\<lambda>l. Side l = Bid) snapshot,
                       asks := filter (\<lambda>l. Side l \<noteq> Bid) snapshot\<rparr>))"

text \<open>
  \<open>BookFactory\<close>: the map \<open>orderbooks\<close> (the replica store) and the flag \<open>manageBooks\<close>. A
  method returns the factory as the call leaves it, with the outcome of the call.
\<close>

record BookFactory =
  orderbooks :: "string \<rightharpoonup> Orderbook"
  manageBooks :: bool

definition BookFactory_Build ::
  "'o packages \<Rightarrow> BookFactory \<Rightarrow> subscription \<Rightarrow> string \<Rightarrow> iface list \<Rightarrow> string
     \<Rightarrow> BookFactory \<times> (BookUpdate option \<times> error option) outcome"
where
  "BookFactory_Build pk f sub objType raw raw_bytes =
     (case ConvertBytesToJsonNumberArray raw_bytes of
        (raw_json_number, str_conv_err) \<Rightarrow>
          if str_conv_err \<noteq> None then (f, Returned (None, str_conv_err))
          else if length raw_json_number \<le> 1 then (f, Panicked IndexOutOfRange)
          else
            (case NewBookUpdateFromRaw pk (Symbol (Request sub)) (Precision (Request sub)) raw
                    (raw_json_number ! 1) of
               (update, err) \<Rightarrow>
                 if manageBooks f then
                   (case orderbooks f (Symbol (Request sub)) of
                      Some orderbook \<Rightarrow>
                        (case UpdateWith orderbook update of
                           Panicked p \<Rightarrow> (f, Panicked p)
                         | Returned orderbook' \<Rightarrow>
                             (f\<lparr>orderbooks := (orderbooks f)(Symbol (Request sub) \<mapsto> orderbook')\<rparr>,
                              Returned (update, err)))
                    | None \<Rightarrow> (f, Returned (update, err)))
                 else (f, Returned (update, err))))"

definition BookFactory_BuildSnapshot ::
  "'o packages \<Rightarrow> BookFactory \<Rightarrow> subscription \<Rightarrow> iface list list \<Rightarrow> string
     \<Rightarrow> BookFactory \<times> (BookUpdateSnapshot option \<times> error option) outcome"
where
  "BookFactory_BuildSnapshot pk f sub raw raw_bytes =
     (case ToFloat64Array pk raw of
        (converted, err) \<Rightarrow>
          if err \<noteq> None then (f, Returned (None, err))
          else
            (case ConvertBytesToJsonNumberArray raw_bytes of
               (raw_json_number, str_conv_err) \<Rightarrow>
                 if str_conv_err \<noteq> None then (f, Returned (None, str_conv_err))
                 else if length raw_json_number \<le> 1 then (f, Panicked IndexOutOfRange)
                 else
                   (case NewBookUpdateSnapshotFromRaw pk (Symbol (Request sub))
                           (Precision (Request sub)) converted (raw_json_number ! 1) of
                      (update, err2) \<Rightarrow>
                        if err2 \<noteq> None then (f, Returned (None, err2))
                        else if manageBooks f then
                          (let f' = f\<lparr>orderbooks := (orderbooks f)(Symbol (Request sub) \<mapsto>
                                       \<lparr>symbol = Symbol (Request sub), bids = [], asks = []\<rparr>)\<rparr>
                           in case SetWithSnapshot
                                     \<lparr>symbol = Symbol (Request sub), bids = [], asks = []\<rparr> update of
                                Panicked p \<Rightarrow> (f', Panicked p)
                              | Returned orderbook' \<Rightarrow>
                                  (f'\<lparr>orderbooks :=
                                        (orderbooks f')(Symbol (Request sub) \<mapsto> orderbook')\<rparr>,
                                   Returned (update, err)))
                        else (f, Returned (update, err)))))"

subsection \<open>The interface\<close>

text \<open>
  A call through the interface \<open>messageFactory\<close> goes to one of the five implementations. The
  replica store belongs to the book factory; the call returns it as it is afterwards, and the
  built object as the \<open>interface{}\<close> it is returned as.
\<close>

datatype factory = Ticker | Trade | Book | Candles | Stats

datatype 'o built = Object 'o | Update BookUpdate | Snapshot BookUpdateSnapshot

definition messageFactory_Build ::
  "'o packages \<Rightarrow> factory \<Rightarrow> BookFactory \<Rightarrow> subscription \<Rightarrow> string \<Rightarrow> iface list \<Rightarrow> string
     \<Rightarrow> BookFactory \<times> ('o built option \<times> error option) outcome"
where
  "messageFactory_Build pk impl books sub objType raw raw_bytes =
     (case impl of
        Ticker \<Rightarrow>
          (books, Returned (map_prod (map_option Object) id
             (TickerFactory_Build pk sub objType raw raw_bytes)))
      | Trade \<Rightarrow>
          (books, Returned (map_prod (map_option Object) id
             (TradeFactory_Build pk sub objType raw raw_bytes)))
      | Candles \<Rightarrow>
          (books, Returned (map_prod (map_option Object) id
             (CandlesFactory_Build pk sub objType raw raw_bytes)))
      | Stats \<Rightarrow>
          (books, Returned (map_prod (map_option Object) id
             (StatsFactory_Build pk sub objType raw raw_bytes)))
      | Book \<Rightarrow>
          (case BookFactory_Build pk books sub objType raw raw_bytes of
             (books', Panicked p) \<Rightarrow> (books', Panicked p)
           | (books', Returned r) \<Rightarrow> (books', Returned (map_prod (map_option Update) id r))))"

definition messageFactory_BuildSnapshot ::
  "'o packages \<Rightarrow> factory \<Rightarrow> BookFactory \<Rightarrow> subscription \<Rightarrow> iface list list \<Rightarrow> string
     \<Rightarrow> BookFactory \<times> ('o built option \<times> error option) outcome"
where
  "messageFactory_BuildSnapshot pk impl books sub raw raw_bytes =
     (case impl of
        Ticker \<Rightarrow>
          (books, Returned (map_prod (map_option Object) id
             (TickerFactory_BuildSnapshot pk sub raw raw_bytes)))
      | Trade \<Rightarrow>
          (books, Returned (map_prod (map_option Object) id
             (TradeFactory_BuildSnapshot pk sub raw raw_bytes)))
      | Candles \<Rightarrow>
          (books, Returned (map_prod (map_option Object) id
             (CandlesFactory_BuildSnapshot pk sub raw raw_bytes)))
      | Stats \<Rightarrow>
          (books, Returned (map_prod (map_option Object) id
             (StatsFactory_BuildSnapshot pk sub raw raw_bytes)))
      | Book \<Rightarrow>
          (case BookFactory_BuildSnapshot pk books sub raw raw_bytes of
             (books', Panicked p) \<Rightarrow> (books', Panicked p)
           | (books', Returned r) \<Rightarrow> (books', Returned (map_prod (map_option Snapshot) id r))))"

subsection \<open>A stand-in for the packages\<close>

text \<open>
  The examples below need the packages to be something. \<open>example_packages\<close> builds a price
  level from three numeric fields (price, count, amount; a positive amount is a bid) and fails
  on anything else, converts rows of numbers, and returns the symbol it was given as every
  other object. The theorems do not depend on it: they hold for every \<open>packages\<close>.
\<close>

fun floats :: "iface list \<Rightarrow> real list option" where
  "floats [] = Some []"
| "floats (IFloat x # es) = map_option ((#) x) (floats es)"
| "floats (e # es) = None"

definition level_of :: "real list \<Rightarrow> BookUpdate" where
  "level_of r =
     \<lparr>Price = r ! 0, Count = \<lfloor>r ! 1\<rfloor>, Amount = r ! 2, Side = (if 0 < r ! 2 then Bid else Ask)\<rparr>"

definition example_packages :: "string packages" where
  "example_packages =
     \<lparr>ticker_FromRaw = (\<lambda>s raw. (Some s, None)),
      ticker_SnapshotFromRaw = (\<lambda>s rows. (Some s, None)),
      NewTradeFromRaw = (\<lambda>s raw. (Some s, None)),
      NewTradeSnapshotFromRaw = (\<lambda>s rows. (Some s, None)),
      ToFloat64Array = (\<lambda>rows.
         if list_all (\<lambda>r. floats r \<noteq> None) rows then (map (\<lambda>r. the (floats r)) rows, None)
         else ([], Some (Errorf ''expected slice of float64''))),
      NewBookUpdateFromRaw = (\<lambda>s prec raw tok.
         case floats raw of
           Some [p, c, a] \<Rightarrow> (Some (level_of [p, c, a]), None)
         | _ \<Rightarrow> (None, Some (Errorf ''data slice too short for book update''))),
      NewBookUpdateSnapshotFromRaw = (\<lambda>s prec rows tok.
         if rows = [] \<or> \<not> list_all (\<lambda>r. length r = 3) rows
         then (None, Some (Errorf ''data slice too short for book snapshot''))
         else (Some (map level_of rows), None)),
      extractSymbolResolutionFromKey = (\<lambda>k. (k, ''1m'', None)),
      candle_FromRaw = (\<lambda>s r raw. (Some s, None)),
      candle_SnapshotFromRaw = (\<lambda>s r rows. (Some s, None)),
      derivatives_FromWsRaw = (\<lambda>s raw. (Some s, None))\<rparr>"

definition example_sub :: "string \<Rightarrow> subscription" where
  "example_sub k =
     \<lparr>Request = \<lparr>Channel = ''book'', Symbol = ''tBTCUSD'', Precision = ''P0'', Key = k\<rparr>\<rparr>"

text \<open>
  A book with one bid and one ask, a factory that manages it, and an update that a failing
  constructor might leave half built.
\<close>

definition example_book :: Orderbook where
  "example_book =
     \<lparr>symbol = ''tBTCUSD'',
      bids = [\<lparr>Price = 8000, Count = 2, Amount = 1, Side = Bid\<rparr>],
      asks = [\<lparr>Price = 8001, Count = 1, Amount = -3, Side = Ask\<rparr>]\<rparr>"

definition example_factory :: BookFactory where
  "example_factory = \<lparr>orderbooks = [''tBTCUSD'' \<mapsto> example_book], manageBooks = True\<rparr>"


subsection \<open>Notions for the proofs about the decoder\<close>

text \<open>
  \<open>delimited s\<close>: a number that ends where \<open>s\<close> begins does not run on into \<open>s\<close>.
  \<open>extend s r\<close>: the result \<open>r\<close> of a scan, with \<open>s\<close> appended to what is left over.
  \<open>wants_value st\<close>: with the stack \<open>st\<close>, a value may begin. \<open>resume p s\<close>: the decoding goes
  on from \<open>p\<close> over the bytes \<open>s\<close>. \<open>decodes v\<close>: wherever a value may begin, the text of \<open>v\<close>
  is read back as \<open>v\<close>.
\<close>

definition delimited :: "string \<Rightarrow> bool" where
  "delimited s = (case s of [] \<Rightarrow> True | c # r \<Rightarrow> \<not> isDigit c \<and> c \<notin> set ''.eE+-'')"

definition extend :: "string \<Rightarrow> (string \<times> string) option \<Rightarrow> (string \<times> string) option" where
  "extend s res = map_option (\<lambda>(u, r). (u, r @ s)) res"


definition resume :: "progress \<Rightarrow> string \<Rightarrow> (jtoken \<times> token list) option" where
  "resume p s = (case p of Fail \<Rightarrow> None | Done v \<Rightarrow> Some (v, lex s) | More st \<Rightarrow> run st (lex s))"

definition follows :: "string list \<Rightarrow> string" where
  "follows xs = concat (map (\<lambda>y. CHR '','' # y) xs)"



text \<open>The number texts held in a frame, on the stack, in a token and in the state of a run.\<close>

fun frame_texts :: "frame \<Rightarrow> string list" where
  "frame_texts ArrOpen = []"
| "frame_texts (ArrComma acc) = concat (map number_texts acc)"
| "frame_texts (ArrElem acc) = concat (map number_texts acc)"
| "frame_texts ObjOpen = []"
| "frame_texts (ObjComma ms) = concat (map (\<lambda>m. number_texts (snd m)) ms)"
| "frame_texts (ObjKey ms k) = concat (map (\<lambda>m. number_texts (snd m)) ms)"
| "frame_texts (ObjColon ms k) = concat (map (\<lambda>m. number_texts (snd m)) ms)"
| "frame_texts (ObjMem ms) = concat (map (\<lambda>m. number_texts (snd m)) ms)"

definition stack_texts :: "frame list \<Rightarrow> string set" where
  "stack_texts st = (\<Union>f\<in>set st. set (frame_texts f))"


definition progress_texts :: "progress \<Rightarrow> string set" where
  "progress_texts p =
     (case p of Fail \<Rightarrow> {} | Done v \<Rightarrow> set (number_texts v) | More st \<Rightarrow> stack_texts st)"

section \<open>Properties\<close>

subsection \<open>Splitting a key\<close>

lemma Split_nonempty: "Split s sep \<noteq> []"
  by (induction s) (auto split: list.splits)

lemma Split_no_sep: "sep \<notin> set a \<Longrightarrow> Split a sep = [a]"
  by (induction a) auto

lemma Split_segment:
  "sep \<notin> set a \<Longrightarrow> Split (a @ sep # rest) sep = a # Split rest sep"
  by (induction a) (auto split: list.splits)

lemma Split_length: "length (Split s sep) = Suc (count_list s sep)"
  by (induction s) (auto split: list.splits)

lemma Split_single: "Split s sep = [a] \<longleftrightarrow> (s = a \<and> sep \<notin> set a)"
proof (induction s arbitrary: a)
  case Nil
  then show ?case by auto
next
  case (Cons c s)
  show ?case
  proof (cases "c = sep")
    case True
    then show ?thesis using Split_nonempty [of s sep] by auto
  next
    case False
    then show ?thesis using Cons [of "tl a"] Split_nonempty [of s sep]
      by (cases a) (auto split: list.splits)
  qed
qed

lemma Split_Cons:
  "Split s sep = a # r # rs \<longleftrightarrow>
     (\<exists>s'. s = a @ sep # s' \<and> sep \<notin> set a \<and> Split s' sep = r # rs)"
proof (induction s arbitrary: a)
  case Nil
  then show ?case by auto
next
  case (Cons c s)
  show ?case
  proof (cases "c = sep")
    case True
    then show ?thesis by (cases a) auto
  next
    case False
    then show ?thesis using Cons [of "tl a"] Split_nonempty [of s sep]
      by (cases a) (auto split: list.splits)
  qed
qed

text \<open>
  A key splits into exactly the three segments \<open>a\<close>, \<open>b\<close>, \<open>c\<close> when it is \<open>a:b:c\<close> with no
  separator inside a segment.
\<close>

lemma Split_three:
  "Split s sep = [a, b, c] \<longleftrightarrow>
     (s = a @ sep # b @ sep # c \<and> sep \<notin> set a \<and> sep \<notin> set b \<and> sep \<notin> set c)"
  by (auto simp: Split_Cons Split_single)

lemma Split_length_three:
  "length (Split s sep) = 3 \<longleftrightarrow> (\<exists>a b c. Split s sep = [a, b, c])"
proof
  assume "length (Split s sep) = 3"
  then have "length (Split s sep) = Suc (Suc (Suc 0))" by simp
  then show "\<exists>a b c. Split s sep = [a, b, c]"
    by (auto simp: length_Suc_conv)
next
  assume "\<exists>a b c. Split s sep = [a, b, c]"
  then show "length (Split s sep) = 3" by auto
qed

subsection \<open>The trade factory drops trade updates\<close>

text \<open>
  C5. \<open>TradeFactory.Build\<close> on the message type \<open>tu\<close> returns \<open>(nil, nil)\<close> whatever the
  subscription, the raw fields, the raw bytes and the trade constructor are: the constructor
  has no part in the result. On any other message type the result is that of
  \<open>bitfinex.NewTradeFromRaw\<close> on the symbol of the subscription and the raw fields.
\<close>

theorem TradeFactory_Build_tu:
  "TradeFactory_Build pk sub ''tu'' raw raw_bytes = (None, None)
   \<and> (objType \<noteq> ''tu'' \<longrightarrow>
        TradeFactory_Build pk sub objType raw raw_bytes
          = NewTradeFromRaw pk (Symbol (Request sub)) raw)"
  by (auto simp: TradeFactory_Build_def)

theorem TradeFactory_Build_tu_witness:
  "TradeFactory_Build example_packages (example_sub []) ''tu'' [] [] = (None, None)
   \<and> ''te'' \<noteq> ''tu''
   \<and> TradeFactory_Build example_packages (example_sub []) ''te'' [] []
       = (Some ''tBTCUSD'', None)"
  using TradeFactory_Build_tu [of example_packages "example_sub []" "[]" "[]" "''te''"]
  by (simp add: example_packages_def example_sub_def)

subsection \<open>The stats factory parses its key\<close>



subsection \<open>The stateless factories and the replica store\<close>

text \<open>
  C10. A call of \<open>Build\<close> or \<open>BuildSnapshot\<close> on the ticker, trade, candle or stats factory
  leaves the replica store as it was, and its result does not depend on the store: only the
  book factory reads or writes the map of order books.
\<close>

theorem stateless_factories_frame:
  "impl \<noteq> Book \<Longrightarrow>
     fst (messageFactory_Build pk impl books sub objType raw raw_bytes) = books
     \<and> fst (messageFactory_BuildSnapshot pk impl books sub rows raw_bytes) = books
     \<and> snd (messageFactory_Build pk impl books sub objType raw raw_bytes)
         = snd (messageFactory_Build pk impl books' sub objType raw raw_bytes)
     \<and> snd (messageFactory_BuildSnapshot pk impl books sub rows raw_bytes)
         = snd (messageFactory_BuildSnapshot pk impl books' sub rows raw_bytes)"
  by (cases impl) (simp_all add: messageFactory_Build_def messageFactory_BuildSnapshot_def)

theorem stateless_factories_frame_witness:
  "Stats \<noteq> Book
   \<and> fst (messageFactory_Build example_packages Stats example_factory
            (example_sub ''deriv:tBTCF0:USTF0'') [] [] []) = example_factory
   \<and> fst (messageFactory_BuildSnapshot example_packages Stats example_factory
            (example_sub ''deriv:tBTCF0:USTF0'') [] []) = example_factory"
  using stateless_factories_frame [of Stats example_packages example_factory
      "example_sub ''deriv:tBTCF0:USTF0''" "[]" "[]" "[]" "[]" example_factory]
  by simp

subsection \<open>Short arrays\<close>

text \<open>
  C9. When the raw bytes decode without error to fewer than two elements, \<open>Build\<close> indexes
  position 1 of the decoded sequence and panics instead of returning; so does \<open>BuildSnapshot\<close>
  once \<open>convert.ToFloat64Array\<close> has succeeded. No error is returned and the store is as it
  was. The bytes \<open>[17]\<close> are such an input.
\<close>

theorem short_array_panics:
  assumes "ConvertBytesToJsonNumberArray raw_bytes = (raw_json_number, None)"
    and "length raw_json_number < 2"
  shows "BookFactory_Build pk f sub objType raw raw_bytes = (f, Panicked IndexOutOfRange)
     \<and> (snd (ToFloat64Array pk rows) = None \<longrightarrow>
          BookFactory_BuildSnapshot pk f sub rows raw_bytes = (f, Panicked IndexOutOfRange))"
  using assms
  by (auto simp: BookFactory_Build_def BookFactory_BuildSnapshot_def split: prod.splits)

theorem short_array_panics_witness:
  "ConvertBytesToJsonNumberArray ''[17]'' = ([JNumber ''17''], None)
   \<and> length [JNumber ''17''] < 2
   \<and> BookFactory_Build example_packages example_factory (example_sub []) [] [] ''[17]''
       = (example_factory, Panicked IndexOutOfRange)
   \<and> snd (ToFloat64Array example_packages []) = None
   \<and> BookFactory_BuildSnapshot example_packages example_factory (example_sub []) [] ''[17]''
       = (example_factory, Panicked IndexOutOfRange)"
proof -
  have d: "ConvertBytesToJsonNumberArray ''[17]'' = ([JNumber ''17''], None)"
    by code_simp
  have t: "snd (ToFloat64Array example_packages []) = None"
    by (simp add: example_packages_def)
  show ?thesis
    using short_array_panics [OF d, of example_packages example_factory "example_sub []" "[]" "[]" "[]"] d t
    by simp
qed

subsection \<open>An update for a symbol without a book\<close>




subsection \<open>Failed calls\<close>

text \<open>
  A decoding error ends \<open>Build\<close> before anything else happens, and every error that
  \<open>BuildSnapshot\<close> returns leaves the factory as it was.
\<close>

lemma Build_decode_error:
  "ConvertBytesToJsonNumberArray raw_bytes = (raw_json_number, Some e) \<Longrightarrow>
     BookFactory_Build pk f sub objType raw raw_bytes = (f, Returned (None, Some e))"
  by (simp add: BookFactory_Build_def)

lemma BuildSnapshot_error_frame:
  "BookFactory_BuildSnapshot pk f sub rows raw_bytes = (f', Returned (r, Some e)) \<Longrightarrow> f' = f"
  by (auto simp: BookFactory_BuildSnapshot_def Let_def
      split: prod.splits if_splits outcome.splits)

text \<open>
  \<open>Build\<close> does not look at the error of \<open>bitfinex.NewBookUpdateFromRaw\<close> before it enters
  the branch for managed books: when a book exists for the symbol, \<open>UpdateWith\<close> receives
  whatever update came with the error.
\<close>

lemma Build_error_path:
  assumes "ConvertBytesToJsonNumberArray raw_bytes = (raw_json_number, None)"
    and "1 < length raw_json_number"
    and "NewBookUpdateFromRaw pk (Symbol (Request sub)) (Precision (Request sub)) raw
           (raw_json_number ! 1) = (update, Some e)"
    and "manageBooks f"
    and "orderbooks f (Symbol (Request sub)) = Some orderbook"
  shows "BookFactory_Build pk f sub objType raw raw_bytes =
     (case UpdateWith orderbook update of
        Panicked p \<Rightarrow> (f, Panicked p)
      | Returned orderbook' \<Rightarrow>
          (f\<lparr>orderbooks := (orderbooks f)(Symbol (Request sub) \<mapsto> orderbook')\<rparr>,
           Returned (update, Some e)))"
  using assms by (simp add: BookFactory_Build_def)


subsection \<open>A snapshot replaces the book\<close>



subsection \<open>An update on a populated book\<close>

lemma set_insert_level: "set (insert_level before u ls) = insert u (set ls)"
  by (induction ls) auto

lemma sorted_insert_level:
  assumes tr: "\<And>a b c. before a b \<Longrightarrow> before b c \<Longrightarrow> before a c"
    and tot: "\<And>a b. a \<noteq> b \<Longrightarrow> \<not> before a b \<Longrightarrow> before b a"
  shows "sorted_wrt (\<lambda>a b. before (Price a) (Price b)) ls \<Longrightarrow>
     \<forall>l\<in>set ls. Price l \<noteq> Price u \<Longrightarrow>
     sorted_wrt (\<lambda>a b. before (Price a) (Price b)) (insert_level before u ls)"
proof (induction ls)
  case Nil
  then show ?case by simp
next
  case (Cons l ls)
  show ?case
  proof (cases "before (Price u) (Price l)")
    case True
    with Cons.prems show ?thesis by (auto intro: tr)
  next
    case False
    with Cons.prems have "before (Price l) (Price u)" by (auto intro: tot)
    with False Cons show ?thesis by (auto simp: set_insert_level)
  qed
qed

lemma sorted_apply_level:
  assumes tr: "\<And>a b c. before a b \<Longrightarrow> before b c \<Longrightarrow> before a c"
    and tot: "\<And>a b. a \<noteq> b \<Longrightarrow> \<not> before a b \<Longrightarrow> before b a"
    and s: "sorted_wrt (\<lambda>a b. before (Price a) (Price b)) ls"
  shows "sorted_wrt (\<lambda>a b. before (Price a) (Price b)) (apply_level before u ls)"
proof -
  have r: "sorted_wrt (\<lambda>a b. before (Price a) (Price b)) (remove_level (Price u) ls)"
    unfolding remove_level_def using s by (rule sorted_wrt_filter)
  have "\<forall>l\<in>set (remove_level (Price u) ls). Price l \<noteq> Price u"
    by (simp add: remove_level_def)
  with r have "sorted_wrt (\<lambda>a b. before (Price a) (Price b))
      (insert_level before u (remove_level (Price u) ls))"
    using sorted_insert_level [of before "remove_level (Price u) ls" u] tr tot by blast
  with r s show ?thesis by (simp add: apply_level_def)
qed

lemma set_apply_level_upsert:
  "0 < Count u \<Longrightarrow>
     set (apply_level before u ls) = insert u (set (filter (\<lambda>l. Price l \<noteq> Price u) ls))"
  by (simp add: apply_level_def set_insert_level remove_level_def)

lemma apply_level_remove:
  "Count u = 0 \<Longrightarrow> apply_level before u ls = filter (\<lambda>l. Price l \<noteq> Price u) ls"
  by (simp add: apply_level_def remove_level_def)

lemma apply_level_absent:
  "Count u = 0 \<Longrightarrow> \<forall>l\<in>set ls. Price l \<noteq> Price u \<Longrightarrow> apply_level before u ls = ls"
  by (simp add: apply_level_def remove_level_def)

lemma apply_level_twice:
  "Count u = 0 \<Longrightarrow> apply_level before u (apply_level before u ls) = apply_level before u ls"
  by (simp add: apply_level_def remove_level_def)

lemma UpdateWith_Some: "UpdateWith ob (Some u) = Returned (updated_book u ob)"
  by (simp add: UpdateWith_def)

lemma Build_populated:
  assumes "ConvertBytesToJsonNumberArray raw_bytes = (raw_json_number, None)"
    and "1 < length raw_json_number"
    and "NewBookUpdateFromRaw pk (Symbol (Request sub)) (Precision (Request sub)) raw
           (raw_json_number ! 1) = (Some u, err)"
    and "manageBooks f"
    and "orderbooks f (Symbol (Request sub)) = Some ob"
  shows "BookFactory_Build pk f sub objType raw raw_bytes =
     (f\<lparr>orderbooks := (orderbooks f)(Symbol (Request sub) \<mapsto> updated_book u ob)\<rparr>,
      Returned (Some u, err))"
  using assms by (simp add: BookFactory_Build_def UpdateWith_Some)

lemma updated_book_sorted: "book_sorted ob \<Longrightarrow> book_sorted (updated_book u ob)"
proof -
  assume s: "book_sorted ob"
  have d: "sorted_wrt (\<lambda>a b. Price a > Price b) (apply_level (>) u (bids ob))"
    by (rule sorted_apply_level) (use s in \<open>auto simp: book_sorted_def\<close>)
  have a: "sorted_wrt (\<lambda>a b. Price a < Price b) (apply_level (<) u (asks ob))"
    by (rule sorted_apply_level) (use s in \<open>auto simp: book_sorted_def\<close>)
  from s d a show ?thesis by (simp add: book_sorted_def updated_book_def)
qed

lemma updated_book_twice:
  "Count u = 0 \<Longrightarrow> updated_book u (updated_book u ob) = updated_book u ob"
  by (simp add: updated_book_def apply_level_twice)

text \<open>
  C2. \<open>Build\<close> with \<open>manageBooks\<close> set, on a symbol that has a book, with bytes that decode to
  at least two elements and a constructor that returns an update \<open>u\<close>: the book of the symbol
  is replaced by a book \<open>ob'\<close> with the same symbol and the same levels on the other side. If
  the count of \<open>u\<close> is positive, the levels on the side of \<open>u\<close> are \<open>u\<close> and the former levels at
  other prices. If the count is zero, they are the former levels at other prices, in order;
  the book is unchanged when no level had that price; and the same call once more leaves the
  factory as the first call left it. A sorted book stays sorted, so \<open>u\<close> stands at its sorted
  position.
\<close>

theorem Build_applies_level:
  assumes dec: "ConvertBytesToJsonNumberArray raw_bytes = (raw_json_number, None)"
    and len: "1 < length raw_json_number"
    and mk: "NewBookUpdateFromRaw pk (Symbol (Request sub)) (Precision (Request sub)) raw
           (raw_json_number ! 1) = (Some u, err)"
    and man: "manageBooks f"
    and pop: "orderbooks f (Symbol (Request sub)) = Some ob"
  shows "\<exists>ob'.
     BookFactory_Build pk f sub objType raw raw_bytes
       = (f\<lparr>orderbooks := (orderbooks f)(Symbol (Request sub) \<mapsto> ob')\<rparr>, Returned (Some u, err))
     \<and> symbol ob' = symbol ob
     \<and> (\<forall>sd. sd \<noteq> Side u \<longrightarrow> side_levels sd ob' = side_levels sd ob)
     \<and> (0 < Count u \<longrightarrow>
          set (side_levels (Side u) ob')
            = insert u (set (filter (\<lambda>l. Price l \<noteq> Price u) (side_levels (Side u) ob))))
     \<and> (Count u = 0 \<longrightarrow>
          side_levels (Side u) ob' = filter (\<lambda>l. Price l \<noteq> Price u) (side_levels (Side u) ob))
     \<and> (Count u = 0 \<longrightarrow> (\<forall>l\<in>set (side_levels (Side u) ob). Price l \<noteq> Price u) \<longrightarrow> ob' = ob)
     \<and> (book_sorted ob \<longrightarrow> book_sorted ob')
     \<and> (Count u = 0 \<longrightarrow>
          BookFactory_Build pk (f\<lparr>orderbooks := (orderbooks f)(Symbol (Request sub) \<mapsto> ob')\<rparr>)
              sub objType raw raw_bytes
            = (f\<lparr>orderbooks := (orderbooks f)(Symbol (Request sub) \<mapsto> ob')\<rparr>,
               Returned (Some u, err)))"
proof (intro exI [of _ "updated_book u ob"] conjI)
  let ?f' = "f\<lparr>orderbooks := (orderbooks f)(Symbol (Request sub) \<mapsto> updated_book u ob)\<rparr>"
  show "BookFactory_Build pk f sub objType raw raw_bytes = (?f', Returned (Some u, err))"
    by (rule Build_populated [OF dec len mk man pop])
  show "symbol (updated_book u ob) = symbol ob"
    by (simp add: updated_book_def)
  show "\<forall>sd. sd \<noteq> Side u \<longrightarrow> side_levels sd (updated_book u ob) = side_levels sd ob"
  proof (intro allI impI)
    fix sd
    assume "sd \<noteq> Side u"
    then show "side_levels sd (updated_book u ob) = side_levels sd ob"
      by (cases sd; cases "Side u") (simp_all add: updated_book_def side_levels_def)
  qed
  show "0 < Count u \<longrightarrow>
      set (side_levels (Side u) (updated_book u ob))
        = insert u (set (filter (\<lambda>l. Price l \<noteq> Price u) (side_levels (Side u) ob)))"
    by (simp add: updated_book_def side_levels_def set_apply_level_upsert)
  show "Count u = 0 \<longrightarrow>
      side_levels (Side u) (updated_book u ob)
        = filter (\<lambda>l. Price l \<noteq> Price u) (side_levels (Side u) ob)"
    by (simp add: updated_book_def side_levels_def apply_level_remove)
  show "Count u = 0 \<longrightarrow> (\<forall>l\<in>set (side_levels (Side u) ob). Price l \<noteq> Price u) \<longrightarrow>
      updated_book u ob = ob"
    by (simp add: updated_book_def side_levels_def apply_level_absent)
  show "book_sorted ob \<longrightarrow> book_sorted (updated_book u ob)"
    by (simp add: updated_book_sorted)
  show "Count u = 0 \<longrightarrow>
      BookFactory_Build pk ?f' sub objType raw raw_bytes = (?f', Returned (Some u, err))"
  proof
    assume z: "Count u = 0"
    have m: "manageBooks ?f'" using man by simp
    have p: "orderbooks ?f' (Symbol (Request sub)) = Some (updated_book u ob)" by simp
    show "BookFactory_Build pk ?f' sub objType raw raw_bytes = (?f', Returned (Some u, err))"
      using Build_populated [OF dec len mk m p, of objType] z
      by (simp add: updated_book_twice)
  qed
qed

theorem Build_applies_level_witness:
  "ConvertBytesToJsonNumberArray ''[17,[8000,0,1]]''
     = ([JNumber ''17'', JArray [JNumber ''8000'', JNumber ''0'', JNumber ''1'']], None)
   \<and> manageBooks example_factory
   \<and> orderbooks example_factory (Symbol (Request (example_sub []))) = Some example_book
   \<and> NewBookUpdateFromRaw example_packages ''tBTCUSD'' ''P0'' [IFloat 8000, IFloat 0, IFloat 1]
        (JArray [JNumber ''8000'', JNumber ''0'', JNumber ''1''])
       = (Some \<lparr>Price = 8000, Count = 0, Amount = 1, Side = Bid\<rparr>, None)
   \<and> (\<exists>ob'. BookFactory_Build example_packages example_factory (example_sub []) []
               [IFloat 8000, IFloat 0, IFloat 1] ''[17,[8000,0,1]]''
             = (example_factory\<lparr>orderbooks := (orderbooks example_factory)(''tBTCUSD'' \<mapsto> ob')\<rparr>,
                Returned (Some \<lparr>Price = 8000, Count = 0, Amount = 1, Side = Bid\<rparr>, None))
           \<and> bids ob' = [] \<and> asks ob' = asks example_book)
   \<and> (\<exists>ob'. BookFactory_Build example_packages example_factory (example_sub []) []
               [IFloat 7999, IFloat 3, IFloat 2] ''[17,[7999,3,2]]''
             = (example_factory\<lparr>orderbooks := (orderbooks example_factory)(''tBTCUSD'' \<mapsto> ob')\<rparr>,
                Returned (Some \<lparr>Price = 7999, Count = 3, Amount = 2, Side = Bid\<rparr>, None))
           \<and> set (bids ob') = {\<lparr>Price = 7999, Count = 3, Amount = 2, Side = Bid\<rparr>,
                                \<lparr>Price = 8000, Count = 2, Amount = 1, Side = Bid\<rparr>}
           \<and> book_sorted ob')"
proof -
  let ?sub = "example_sub []"
  let ?t0 = "[JNumber ''17'', JArray [JNumber ''8000'', JNumber ''0'', JNumber ''1'']]"
  let ?t1 = "[JNumber ''17'', JArray [JNumber ''7999'', JNumber ''3'', JNumber ''2'']]"
  let ?u0 = "\<lparr>Price = 8000, Count = 0, Amount = 1, Side = Bid\<rparr>"
  let ?u1 = "\<lparr>Price = 7999, Count = 3, Amount = 2, Side = Bid\<rparr>"
  have d0: "ConvertBytesToJsonNumberArray ''[17,[8000,0,1]]'' = (?t0, None)"
    by code_simp
  have d1: "ConvertBytesToJsonNumberArray ''[17,[7999,3,2]]'' = (?t1, None)"
    by code_simp
  have l0: "1 < length ?t0" and l1: "1 < length ?t1"
    by simp_all
  have m0: "NewBookUpdateFromRaw example_packages (Symbol (Request ?sub)) (Precision (Request ?sub))
      [IFloat 8000, IFloat 0, IFloat 1] (?t0 ! 1) = (Some ?u0, None)"
    by (simp add: example_packages_def example_sub_def level_of_def)
  have m1: "NewBookUpdateFromRaw example_packages (Symbol (Request ?sub)) (Precision (Request ?sub))
      [IFloat 7999, IFloat 3, IFloat 2] (?t1 ! 1) = (Some ?u1, None)"
    by (simp add: example_packages_def example_sub_def level_of_def)
  have man: "manageBooks example_factory"
    by (simp add: example_factory_def)
  have pop: "orderbooks example_factory (Symbol (Request ?sub)) = Some example_book"
    by (simp add: example_factory_def example_sub_def)
  have sorted: "book_sorted example_book"
    by (simp add: book_sorted_def example_book_def)
  from Build_applies_level [OF d0 l0 m0 man pop, of "[]"]
  obtain ob0 where
    b0: "BookFactory_Build example_packages example_factory ?sub []
            [IFloat 8000, IFloat 0, IFloat 1] ''[17,[8000,0,1]]''
          = (example_factory\<lparr>orderbooks :=
               (orderbooks example_factory)(Symbol (Request ?sub) \<mapsto> ob0)\<rparr>,
             Returned (Some ?u0, None))"
    and o0: "\<forall>sd. sd \<noteq> Side ?u0 \<longrightarrow> side_levels sd ob0 = side_levels sd example_book"
    and z0: "Count ?u0 = 0 \<longrightarrow>
          side_levels (Side ?u0) ob0
            = filter (\<lambda>l. Price l \<noteq> Price ?u0) (side_levels (Side ?u0) example_book)"
    by blast
  from z0 have bids0: "bids ob0 = []"
    by (simp add: side_levels_def example_book_def)
  from o0 have "side_levels Ask ob0 = side_levels Ask example_book"
    by simp
  then have asks0: "asks ob0 = asks example_book"
    by (simp add: side_levels_def)
  from Build_applies_level [OF d1 l1 m1 man pop, of "[]"]
  obtain ob1 where
    b1: "BookFactory_Build example_packages example_factory ?sub []
            [IFloat 7999, IFloat 3, IFloat 2] ''[17,[7999,3,2]]''
          = (example_factory\<lparr>orderbooks :=
               (orderbooks example_factory)(Symbol (Request ?sub) \<mapsto> ob1)\<rparr>,
             Returned (Some ?u1, None))"
    and p1: "0 < Count ?u1 \<longrightarrow>
          set (side_levels (Side ?u1) ob1)
            = insert ?u1 (set (filter (\<lambda>l. Price l \<noteq> Price ?u1)
                (side_levels (Side ?u1) example_book)))"
    and s1: "book_sorted example_book \<longrightarrow> book_sorted ob1"
    by blast
  from p1 have set1: "set (bids ob1) = {?u1, \<lparr>Price = 8000, Count = 2, Amount = 1, Side = Bid\<rparr>}"
    by (simp add: side_levels_def example_book_def)
  from s1 sorted have sorted1: "book_sorted ob1"
    by simp
  have sym: "Symbol (Request ?sub) = ''tBTCUSD''" "Precision (Request ?sub) = ''P0''"
    by (simp_all add: example_sub_def)
  from b0 bids0 asks0 have e0: "\<exists>ob'. BookFactory_Build example_packages example_factory ?sub []
               [IFloat 8000, IFloat 0, IFloat 1] ''[17,[8000,0,1]]''
             = (example_factory\<lparr>orderbooks := (orderbooks example_factory)(''tBTCUSD'' \<mapsto> ob')\<rparr>,
                Returned (Some ?u0, None))
           \<and> bids ob' = [] \<and> asks ob' = asks example_book"
    unfolding sym by blast
  from b1 set1 sorted1 have e1: "\<exists>ob'. BookFactory_Build example_packages example_factory ?sub []
               [IFloat 7999, IFloat 3, IFloat 2] ''[17,[7999,3,2]]''
             = (example_factory\<lparr>orderbooks := (orderbooks example_factory)(''tBTCUSD'' \<mapsto> ob')\<rparr>,
                Returned (Some ?u1, None))
           \<and> set (bids ob') = {?u1, \<lparr>Price = 8000, Count = 2, Amount = 1, Side = Bid\<rparr>}
           \<and> book_sorted ob'"
    unfolding sym by blast
  from m0 have m0': "NewBookUpdateFromRaw example_packages ''tBTCUSD'' ''P0''
        [IFloat 8000, IFloat 0, IFloat 1] (JArray [JNumber ''8000'', JNumber ''0'', JNumber ''1''])
       = (Some ?u0, None)"
    unfolding sym by simp
  from d0 man pop m0' e0 e1 show ?thesis
    by blast
qed

subsection \<open>Decoding with exact numbers\<close>




lemma extend_simps [simp]:
  "extend s None = None" "extend s (Some (u, r)) = Some (u, r @ s)"
  by (simp_all add: extend_def)

lemma digits_delimited: "delimited s \<Longrightarrow> digits s = ([], s)"
  by (cases s) (auto simp: delimited_def)










text \<open>The tokens at the front of a text, and what the decoder does with them.\<close>

lemma resume_simps [simp]:
  "resume Fail s = None"
  "resume (Done v) s = Some (v, lex s)"
  "resume (More st) s = run st (lex s)"
  by (simp_all add: resume_def)










lemma follows_simps [simp]:
  "follows [] = []" "follows (x # xs) = CHR '','' # x @ follows xs"
  by (simp_all add: follows_def)



















lemma stack_texts_simps [simp]:
  "stack_texts [] = {}"
  "stack_texts (f # st) = set (frame_texts f) \<union> stack_texts st"
  by (simp_all add: stack_texts_def)

lemma progress_texts_simps [simp]:
  "progress_texts Fail = {}"
  "progress_texts (Done v) = set (number_texts v)"
  "progress_texts (More st) = stack_texts st"
  by (simp_all add: progress_texts_def)
















end
